theory Spec2Isabelle
  imports Main "HOL-Library.Word"
begin

section \<open>C strings, buffers and machine integers\<close>

text \<open>
  The embedding follows \<^verbatim>\<open>src/other/io/scroll.c\<close>. A \<^verbatim>\<open>char *\<close> is the list of bytes found at
  the pointer: a C string function reads it up to the first zero byte (the end of the list
  counts as a terminator), a buffer function reads the number of bytes it is told to.
  The integer types are those of an LP64 platform: \<^verbatim>\<open>long\<close> and the host's
  \<^verbatim>\<open>sq_numeral\<close> are 64-bit words read as signed, \<^verbatim>\<open>int\<close> is a 32-bit word,
  \<^verbatim>\<open>unsigned\<close> counts modulo \<open>2 ^ 32\<close>, and a \<^verbatim>\<open>size_t\<close> is a natural number.
\<close>

abbreviation NUL :: char where
  "NUL \<equiv> CHR 0x00"

abbreviation NL :: char where
  "NL \<equiv> CHR 0x0A"

definition cstr :: "string \<Rightarrow> string" where
  "cstr p = takeWhile (\<lambda>c. c \<noteq> NUL) p"

definition strlen :: "string \<Rightarrow> nat" where
  "strlen p = length (cstr p)"

text \<open>\<^verbatim>\<open>strcmp\<close>: scroll.c only tests the result against zero, so the sign of a
  difference is not modelled.\<close>

definition strcmp :: "string \<Rightarrow> string \<Rightarrow> int" where
  "strcmp a b = (if cstr a = cstr b then 0 else 1)"

definition strdup :: "string \<Rightarrow> string" where
  "strdup p = cstr p @ [NUL]"

text \<open>\<^verbatim>\<open>strndup(p, n)\<close> copies at most \<open>n\<close> bytes and stops at the first zero byte.\<close>

definition strndup :: "string \<Rightarrow> nat \<Rightarrow> string" where
  "strndup p n = cstr (take n p) @ [NUL]"

text \<open>\<^verbatim>\<open>unsigned nread = fread(...)\<close>: the conversion of a \<^verbatim>\<open>size_t\<close> to
  \<^verbatim>\<open>unsigned\<close>.\<close>

definition to_unsigned :: "nat \<Rightarrow> nat" where
  "to_unsigned n = n mod 2 ^ 32"

text \<open>Writing the bytes \<open>bs\<close> into a buffer from index \<open>i\<close> on, as \<^verbatim>\<open>fread\<close> does
  with \<^verbatim>\<open>&text->ptr[position]\<close>. The callers never write past the end of the buffer.\<close>

definition store :: "string \<Rightarrow> nat \<Rightarrow> string \<Rightarrow> string" where
  "store buf i bs = take i buf @ bs @ drop (i + length bs) buf"

section \<open>The host's values\<close>

text \<open>
  The value representation of the interpreter (\<^verbatim>\<open>squire/text.h\<close>, \<^verbatim>\<open>squire/other/*.h\<close>)
  is not part of scroll.c; the types below hold what scroll.c reads and writes of it.
  A text is a buffer with a length field (\<^verbatim>\<open>text->ptr\<close>, \<^verbatim>\<open>text->length\<close>); the field
  is named \<open>length_t\<close> here, and the \<^verbatim>\<open>file\<close> of a scroll \<open>file_ptr\<close>.
\<close>

type_synonym sq_numeral = "64 word"

record sq_text =
  ptr :: string
  length_t :: nat

text \<open>The bytes a text stands for: the first \<open>length_t\<close> bytes of its buffer.\<close>

definition text_bytes :: "sq_text \<Rightarrow> string" where
  "text_bytes t = take (length_t t) (ptr t)"

record sq_scroll =
  file_ptr :: nat
  filename :: string
  mode :: string

datatype builtin_func = Write_func | Read_func | Seek_func | Close_func

record builtin_journey =
  name :: string
  nargs :: nat
  func :: builtin_func

datatype sq_other = Scroll sq_scroll | Builtin_Journey builtin_journey

datatype sq_value =
    Numeral sq_numeral
  | Text sq_text
  | Veracity bool
  | Other sq_other
  | SQ_NI
  | SQ_UNDEFINED

text \<open>A value carries its genus tag in its constructor: \<^verbatim>\<open>SQ_G_NUMERAL\<close> is \<open>Numeral\<close>,
  \<^verbatim>\<open>SQ_G_TEXT\<close> is \<open>Text\<close>, and \<^verbatim>\<open>SQ_G_OTHER\<close> is \<open>Other\<close> or \<^verbatim>\<open>SQ_NI\<close>
  (read_func compares a value of that genus with \<^verbatim>\<open>SQ_NI\<close>). \<open>Veracity\<close> stands for the
  genera scroll.c does not name.\<close>

text \<open>Modelled from the spec: \<^verbatim>\<open>sq_text_new\<close> (squire/text.h, not under src/) wraps a
  zero-terminated buffer it is handed as a text. It receives the pointer alone, so the
  length it records is the C string's; section 6 of the spec names the resulting loss of
  everything after an embedded zero byte.\<close>

definition sq_text_new :: "string \<Rightarrow> sq_text" where
  "sq_text_new p = \<lparr>ptr = p, length_t = strlen p\<rparr>"

text \<open>Modelled from the spec: \<^verbatim>\<open>sq_text_allocate\<close> (squire/text.h, not under src/) gives
  a text of the requested length over a new buffer with room for the terminator (scroll.c
  writes \<^verbatim>\<open>text->ptr[position]\<close> with \<^verbatim>\<open>position\<close> up to the length). The buffer is
  not initialised: \<open>fresh i\<close> is the byte the allocator left at offset \<open>i\<close>.\<close>

definition sq_text_allocate :: "(nat \<Rightarrow> char) \<Rightarrow> nat \<Rightarrow> sq_text" where
  "sq_text_allocate fresh n = \<lparr>ptr = map fresh [0..<n + 1], length_t = n\<rparr>"

section \<open>Exceptions\<close>

text \<open>
  \<^verbatim>\<open>sq_throw\<close> and \<^verbatim>\<open>sq_throw_io\<close> (squire/exception.h) do not return; neither do
  \<^verbatim>\<open>die\<close> and a failed \<^verbatim>\<open>assert\<close>. Each is a value here, with the format string and
  the arguments of the call.
\<close>

datatype fmt_arg = Zu nat | D int | S string

datatype exn =
    Throw string "fmt_arg list"
  | Throw_io string "fmt_arg list"
  | Die string
  | Assert_fail

abbreviation apo :: char where
  "apo \<equiv> CHR 0x27"

text \<open>The format strings of scroll.c that end in an apostrophe.\<close>

definition fmt_open :: string where
  "fmt_open = ''cannot open file '%s'' @ [apo]"

definition fmt_close :: string where
  "fmt_close = ''unable to close scroll '%s'' @ [apo]"

definition fmt_read :: string where
  "fmt_read = ''unable to read %zu bytes from '%s'' @ [apo]"

definition fmt_write :: string where
  "fmt_write = ''cannot write %zu bytes to '%s'' @ [apo]"

definition fmt_tell :: string where
  "fmt_tell = ''cannot get offset for '%s'' @ [apo]"

definition fmt_seek :: string where
  "fmt_seek = ''cannot seek '%d' for '%s'' @ [apo]"

definition fmt_kind :: string where
  "fmt_kind = ''invalid read arugment kind '%s'' @ [apo]"

section \<open>The C library\<close>

text \<open>
  The stdio functions scroll.c calls are an interface over a state \<open>'w\<close> of the operating
  system; a \<^verbatim>\<open>FILE *\<close> is a number. The wrappers below log every call, cut what
  \<^verbatim>\<open>fread\<close> hands back to the bytes asked for and what \<^verbatim>\<open>fwrite\<close> reports to the
  bytes offered, as the C standard promises.
\<close>

record 'w stdio =
  io_fopen :: "string \<Rightarrow> string \<Rightarrow> 'w \<Rightarrow> nat option \<times> 'w"
  io_fread :: "nat \<Rightarrow> nat \<Rightarrow> 'w \<Rightarrow> string \<times> 'w"
  io_ferror :: "nat \<Rightarrow> 'w \<Rightarrow> bool"
  io_fwrite :: "nat \<Rightarrow> string \<Rightarrow> 'w \<Rightarrow> nat \<times> 'w"
  io_ftell :: "nat \<Rightarrow> 'w \<Rightarrow> 64 word"
  io_fseek :: "nat \<Rightarrow> 64 word \<Rightarrow> 32 word \<Rightarrow> 'w \<Rightarrow> 32 word \<times> 'w"
  io_fclose :: "nat \<Rightarrow> 'w \<Rightarrow> 32 word \<times> 'w"
  io_fgetln :: "nat \<Rightarrow> 'w \<Rightarrow> string option \<times> 'w"
  io_strerror :: "'w \<Rightarrow> string"
  io_fresh :: "nat \<Rightarrow> char"

datatype os_call =
    Fopen string string
  | Fread nat nat
  | Ferror nat
  | Fwrite nat string
  | Ftell nat
  | Fseek nat "64 word" "32 word"
  | Fclose nat
  | Fgetln nat

record 'w world =
  os :: 'w
  calls :: "os_call list"

definition fopen :: "'w stdio \<Rightarrow> string \<Rightarrow> string \<Rightarrow> 'w world \<Rightarrow> nat option \<times> 'w world" where
  "fopen io path md W =
     (case io_fopen io (cstr path) (cstr md) (os W) of
        (r, s) \<Rightarrow> (r, \<lparr>os = s, calls = calls W @ [Fopen (cstr path) (cstr md)]\<rparr>))"

definition fread :: "'w stdio \<Rightarrow> nat \<Rightarrow> nat \<Rightarrow> 'w world \<Rightarrow> string \<times> 'w world" where
  "fread io fp n W =
     (case io_fread io fp n (os W) of
        (bs, s) \<Rightarrow> (take n bs, \<lparr>os = s, calls = calls W @ [Fread fp n]\<rparr>))"

definition ferror :: "'w stdio \<Rightarrow> nat \<Rightarrow> 'w world \<Rightarrow> bool \<times> 'w world" where
  "ferror io fp W = (io_ferror io fp (os W), W\<lparr>calls := calls W @ [Ferror fp]\<rparr>)"

definition fwrite :: "'w stdio \<Rightarrow> nat \<Rightarrow> string \<Rightarrow> 'w world \<Rightarrow> nat \<times> 'w world" where
  "fwrite io fp bs W =
     (case io_fwrite io fp bs (os W) of
        (n, s) \<Rightarrow> (min n (length bs), \<lparr>os = s, calls = calls W @ [Fwrite fp bs]\<rparr>))"

definition ftell :: "'w stdio \<Rightarrow> nat \<Rightarrow> 'w world \<Rightarrow> 64 word \<times> 'w world" where
  "ftell io fp W = (io_ftell io fp (os W), W\<lparr>calls := calls W @ [Ftell fp]\<rparr>)"

definition fseek :: "'w stdio \<Rightarrow> nat \<Rightarrow> 64 word \<Rightarrow> 32 word \<Rightarrow> 'w world \<Rightarrow> 32 word \<times> 'w world" where
  "fseek io fp off wh W =
     (case io_fseek io fp off wh (os W) of
        (r, s) \<Rightarrow> (r, \<lparr>os = s, calls = calls W @ [Fseek fp off wh]\<rparr>))"

definition fclose :: "'w stdio \<Rightarrow> nat \<Rightarrow> 'w world \<Rightarrow> 32 word \<times> 'w world" where
  "fclose io fp W =
     (case io_fclose io fp (os W) of
        (r, s) \<Rightarrow> (r, \<lparr>os = s, calls = calls W @ [Fclose fp]\<rparr>))"

definition fgetln :: "'w stdio \<Rightarrow> nat \<Rightarrow> 'w world \<Rightarrow> string option \<times> 'w world" where
  "fgetln io fp W =
     (case io_fgetln io fp (os W) of
        (r, s) \<Rightarrow> (r, \<lparr>os = s, calls = calls W @ [Fgetln fp]\<rparr>))"

section \<open>The host's conversions\<close>

text \<open>
  \<^verbatim>\<open>sq_value_to_text\<close>, \<^verbatim>\<open>sq_value_to_numeral\<close> and \<^verbatim>\<open>sq_value_typename\<close> belong to the
  interpreter and are parameters of the embedding. Nothing in scroll.c says what
  \<^verbatim>\<open>sq_value_to_text\<close> does with a value: like every function that may throw, it takes
  the world and gives back an exception or a text, and the world it left. The two others
  are read as functions: \<^verbatim>\<open>sq_value_to_numeral\<close> gives the numeral a conversion returns,
  \<^verbatim>\<open>sq_value_typename\<close> the name printed in a message.
\<close>

record 'w host =
  sq_value_to_text :: "sq_value \<Rightarrow> 'w world \<Rightarrow> (exn + sq_text) \<times> 'w world"
  sq_value_to_numeral :: "sq_value \<Rightarrow> sq_numeral"
  sq_value_typename :: "sq_value \<Rightarrow> string"

section \<open>The scroll\<close>

text \<open>The four journeys are file-level variables of scroll.c, assigned by every
  \<^verbatim>\<open>sq_scroll_init\<close>.\<close>

record journeys =
  write_journey :: sq_value
  read_journey :: sq_value
  seek_journey :: sq_value
  close_journey :: sq_value

text \<open>The macro \<^verbatim>\<open>NEW_JOURNEY(_name, _nargs)\<close>.\<close>

definition NEW_JOURNEY :: "string \<Rightarrow> nat \<Rightarrow> builtin_func \<Rightarrow> sq_value" where
  "NEW_JOURNEY nm n f = Other (Builtin_Journey \<lparr>name = ''Scroll.'' @ nm, nargs = n, func = f\<rparr>)"

definition sq_scroll_init ::
  "'w stdio \<Rightarrow> string \<Rightarrow> string \<Rightarrow> journeys \<Rightarrow> 'w world \<Rightarrow> (exn + sq_scroll) \<times> journeys \<times> 'w world" where
  "sq_scroll_init io fname md g W =
     (case fopen io fname md W of
        (None, W') \<Rightarrow> (Inl (Throw_io fmt_open [S (cstr fname)]), g, W')
      | (Some fp, W') \<Rightarrow>
          (Inr \<lparr>file_ptr = fp, filename = strdup fname, mode = strdup md\<rparr>,
           \<lparr>write_journey = NEW_JOURNEY ''write'' 2 Write_func,
            read_journey = NEW_JOURNEY ''read'' 2 Read_func,
            seek_journey = NEW_JOURNEY ''seek'' 3 Seek_func,
            close_journey = NEW_JOURNEY ''close'' 1 Close_func\<rparr>,
           W'))"

definition sq_scroll_dump :: "sq_scroll \<Rightarrow> string" where
  "sq_scroll_dump scroll =
     ''Scroll('' @ cstr (filename scroll) @ '', mode='' @ cstr (mode scroll) @ '')''"

text \<open>\<^verbatim>\<open>free\<close> has no effect on the model; the result of \<^verbatim>\<open>fclose\<close> is dropped.\<close>

definition sq_scroll_deallocate :: "'w stdio \<Rightarrow> sq_scroll \<Rightarrow> 'w world \<Rightarrow> 'w world" where
  "sq_scroll_deallocate io scroll W = snd (fclose io (file_ptr scroll) W)"

definition sq_scroll_get_attr :: "journeys \<Rightarrow> sq_scroll \<Rightarrow> string \<Rightarrow> sq_value" where
  "sq_scroll_get_attr g scroll attr =
     (if strcmp attr ''filename'' = 0 then Text (sq_text_new (strdup (filename scroll)))
      else if strcmp attr ''mode'' = 0 then Text (sq_text_new (strdup (mode scroll)))
      else if strcmp attr ''write'' = 0 then write_journey g
      else if strcmp attr ''read'' = 0 then read_journey g
      else if strcmp attr ''seek'' = 0 then seek_journey g
      else SQ_UNDEFINED)"

text \<open>The call \<^verbatim>\<open>sq_throw_io("unable to close scroll '%s'")\<close> passes no argument.\<close>

definition sq_scroll_close :: "'w stdio \<Rightarrow> sq_scroll \<Rightarrow> 'w world \<Rightarrow> (exn + unit) \<times> 'w world" where
  "sq_scroll_close io scroll W =
     (case fclose io (file_ptr scroll) W of
        (r, W') \<Rightarrow> if r \<noteq> 0 then (Inl (Throw_io fmt_close []), W') else (Inr (), W'))"

text \<open>The loop of \<^verbatim>\<open>sq_scroll_read\<close>:
  \<^verbatim>\<open>while ((nread = fread(&text->ptr[position], 1, length - position, scroll->file))) position += nread;\<close>
  It returns the final position, the buffer and the world.\<close>

function read_loop ::
  "'w stdio \<Rightarrow> nat \<Rightarrow> nat \<Rightarrow> nat \<Rightarrow> string \<Rightarrow> 'w world \<Rightarrow> nat \<times> string \<times> 'w world" where
  "read_loop io fp len position buf W =
     (let r = fread io fp (len - position) W;
          nread = to_unsigned (length (fst r));
          buf' = store buf position (fst r)
      in if nread \<noteq> 0 then read_loop io fp len (position + nread) buf' (snd r)
         else (position, buf', snd r))"
  by pat_completeness auto

termination
proof (relation "measure (\<lambda>(io, fp, len, position, buf, W). len - position)")
  show "wf (measure (\<lambda>(io :: 'a stdio, fp :: nat, len :: nat, position :: nat,
      buf :: string, W :: 'a world). len - position))"
    by simp
next
  fix io :: "'a stdio" and fp len position :: nat and buf :: string and W :: "'a world"
    and r nread buf'
  assume r: "r = fread io fp (len - position) W"
    and n: "nread = to_unsigned (length (fst r))"
    and nz: "nread \<noteq> 0"
  have "length (fst r) \<le> len - position"
    unfolding r fread_def by (simp split: prod.split)
  moreover have "nread \<le> length (fst r)"
    unfolding n to_unsigned_def by (rule mod_less_eq_dividend)
  ultimately have "0 < nread \<and> nread \<le> len - position"
    using nz by simp
  then show "((io, fp, len, position + nread, buf', snd r), (io, fp, len, position, buf, W))
      \<in> measure (\<lambda>(io, fp, len, position, buf, W). len - position)"
    by simp arith
qed

declare read_loop.simps [simp del]

definition sq_scroll_read ::
  "'w stdio \<Rightarrow> sq_scroll \<Rightarrow> nat \<Rightarrow> 'w world \<Rightarrow> (exn + sq_text) \<times> 'w world" where
  "sq_scroll_read io scroll len W =
     (let text = sq_text_allocate (io_fresh io) len in
      case read_loop io (file_ptr scroll) len 0 (ptr text) W of
        (position, buf, W1) \<Rightarrow>
          (case ferror io (file_ptr scroll) W1 of
             (e, W2) \<Rightarrow>
               if e then (Inl (Throw_io fmt_read [Zu len, S (cstr (filename scroll))]), W2)
               else (Inr (text\<lparr>ptr := buf[position := NUL]\<rparr>), W2)))"

text \<open>Under \<^verbatim>\<open>__GNUC__\<close> the body is \<^verbatim>\<open>die("todo: sq_scroll_read_all")\<close>; elsewhere the file
  does not compile.\<close>

definition sq_scroll_read_all :: "'w stdio \<Rightarrow> sq_scroll \<Rightarrow> 'w world \<Rightarrow> (exn + sq_text) \<times> 'w world" where
  "sq_scroll_read_all io scroll W = (Inl (Die ''todo: sq_scroll_read_all''), W)"

definition sq_scroll_write ::
  "'w stdio \<Rightarrow> sq_scroll \<Rightarrow> string \<Rightarrow> nat \<Rightarrow> 'w world \<Rightarrow> (exn + unit) \<times> 'w world" where
  "sq_scroll_write io scroll p len W =
     (case fwrite io (file_ptr scroll) (take len p) W of
        (n, W') \<Rightarrow>
          if n < len then (Inl (Throw_io fmt_write [Zu len, S (cstr (filename scroll))]), W')
          else (Inr (), W'))"

text \<open>\<^verbatim>\<open>sq_scroll_tell\<close> returns the \<^verbatim>\<open>long\<close> as a \<^verbatim>\<open>size_t\<close>.\<close>

definition sq_scroll_tell :: "'w stdio \<Rightarrow> sq_scroll \<Rightarrow> 'w world \<Rightarrow> (exn + nat) \<times> 'w world" where
  "sq_scroll_tell io scroll W =
     (case ftell io (file_ptr scroll) W of
        (v, W') \<Rightarrow>
          if sint v < 0 then (Inl (Throw_io fmt_tell [S (cstr (filename scroll))]), W')
          else (Inr (unat v), W'))"

definition sq_scroll_seek ::
  "'w stdio \<Rightarrow> sq_scroll \<Rightarrow> 64 word \<Rightarrow> 32 word \<Rightarrow> 'w world \<Rightarrow> (exn + unit) \<times> 'w world" where
  "sq_scroll_seek io scroll offset whence W =
     (case fseek io (file_ptr scroll) offset whence W of
        (r, W') \<Rightarrow>
          if r \<noteq> 0 then (Inl (Throw_io fmt_seek [D (sint whence), S (cstr (filename scroll))]), W')
          else (Inr (), W'))"

section \<open>The journeys' functions\<close>

text \<open>
  \<^verbatim>\<open>struct sq_args\<close>: the positional arguments and the number of keyword arguments;
  \<^verbatim>\<open>pargc\<close> is the length of \<^verbatim>\<open>pargv\<close>. The casts
  \<^verbatim>\<open>sq_other_as_scroll(sq_value_as_other(v))\<close> belong to the host and assert the kind of
  what they are given.
\<close>

record sq_args =
  pargv :: "sq_value list"
  kwargc :: nat

definition pargc :: "sq_args \<Rightarrow> nat" where
  "pargc args = length (pargv args)"

fun sq_value_as_scroll :: "sq_value \<Rightarrow> sq_scroll option" where
  "sq_value_as_scroll (Other (Scroll scroll)) = Some scroll"
| "sq_value_as_scroll v = None"

definition write_func :: "'w stdio \<Rightarrow> 'w host \<Rightarrow> sq_args \<Rightarrow> 'w world \<Rightarrow> (exn + sq_value) \<times> 'w world" where
  "write_func io h args W =
     (if \<not> (pargc args = 2 \<and> kwargc args = 0) then (Inl Assert_fail, W)
      else case sq_value_as_scroll (pargv args ! 0) of
        None \<Rightarrow> (Inl Assert_fail, W)
      | Some scroll \<Rightarrow>
          (case sq_value_to_text h (pargv args ! 1) W of
             (Inl e, W1) \<Rightarrow> (Inl e, W1)
           | (Inr text, W1) \<Rightarrow>
               (case sq_scroll_write io scroll (ptr text) (length_t text) W1 of
                  (Inl e, W') \<Rightarrow> (Inl e, W')
                | (Inr u, W') \<Rightarrow> (Inr SQ_NI, W'))))"

definition read_func :: "'w stdio \<Rightarrow> 'w host \<Rightarrow> sq_args \<Rightarrow> 'w world \<Rightarrow> (exn + sq_value) \<times> 'w world" where
  "read_func io h args W =
     (if \<not> (pargc args = 2 \<and> kwargc args = 0) then (Inl Assert_fail, W)
      else case sq_value_as_scroll (pargv args ! 0) of
        None \<Rightarrow> (Inl Assert_fail, W)
      | Some scroll \<Rightarrow>
          (case pargv args ! 1 of
             Numeral n \<Rightarrow>
               if sint n < 0 then (Inl (Throw ''can only read nonnegative amounts'' []), W)
               else (case sq_scroll_read io scroll (unat n) W of
                       (Inl e, W') \<Rightarrow> (Inl e, W')
                     | (Inr text, W') \<Rightarrow> (Inr (Text text), W'))
           | Text t \<Rightarrow>
               if strcmp (ptr t) [NL] \<noteq> 0 then (Inl (Die ''todo: non-newline gets''), W)
               else (case fgetln io (file_ptr scroll) W of
                       (None, W') \<Rightarrow> (Inl (Throw (io_strerror io (os W')) []), W')
                     | (Some result, W') \<Rightarrow>
                         (Inr (Text (sq_text_new (strndup result (length result)))), W'))
           | SQ_NI \<Rightarrow>
               (case sq_scroll_read_all io scroll W of
                  (Inl e, W') \<Rightarrow> (Inl e, W')
                | (Inr text, W') \<Rightarrow> (Inr (Text text), W'))
           | arg \<Rightarrow> (Inl (Throw fmt_kind [S (sq_value_typename h arg)]), W)))"

definition seek_func :: "'w stdio \<Rightarrow> 'w host \<Rightarrow> sq_args \<Rightarrow> 'w world \<Rightarrow> (exn + sq_value) \<times> 'w world" where
  "seek_func io h args W =
     (if \<not> (pargc args = 3 \<and> kwargc args = 0) then (Inl Assert_fail, W)
      else case sq_value_as_scroll (pargv args ! 0) of
        None \<Rightarrow> (Inl Assert_fail, W)
      | Some scroll \<Rightarrow>
          (let offset = sq_value_to_numeral h (pargv args ! 1);
               whence = sq_value_to_numeral h (pargv args ! 2)
           in case sq_scroll_seek io scroll offset (ucast whence) W of
                (Inl e, W1) \<Rightarrow> (Inl e, W1)
              | (Inr u, W1) \<Rightarrow>
                  (case sq_scroll_tell io scroll W1 of
                     (Inl e, W2) \<Rightarrow> (Inl e, W2)
                   | (Inr v, W2) \<Rightarrow> (Inr (Numeral (of_nat v)), W2))))"

definition close_func :: "'w stdio \<Rightarrow> 'w host \<Rightarrow> sq_args \<Rightarrow> 'w world \<Rightarrow> (exn + sq_value) \<times> 'w world" where
  "close_func io h args W =
     (if \<not> (pargc args = 1 \<and> kwargc args = 0) then (Inl Assert_fail, W)
      else case sq_value_as_scroll (pargv args ! 0) of
        None \<Rightarrow> (Inl Assert_fail, W)
      | Some scroll \<Rightarrow>
          (case sq_scroll_close io scroll W of
             (Inl e, W') \<Rightarrow> (Inl e, W')
           | (Inr u, W') \<Rightarrow> (Inr SQ_NI, W')))"

section \<open>An operating system with one file in memory\<close>

text \<open>
  An instance of the C library for the examples and for the claims that speak of what a
  stream holds: a disk with one file and at most one open stream on it, the
  \<^verbatim>\<open>FILE *\<close> 1. The stream has the position, the error indicator and the rights of its
  \<^verbatim>\<open>fopen\<close> mode; in an append mode every write goes to the end of the file. No call
  fails for lack of space, and a read or a write transfers everything it can at once.
  It is one library among those the interface admits, kept small: the mode letter
  \<^verbatim>\<open>x\<close> is not read, an append stream reports the position 0 until its first write,
  a read or a write on a stream without the right sets the error indicator also for no
  bytes, and closing a stream that is not open answers -1.
\<close>

record ramfile =
  rf_name :: string
  rf_exists :: bool
  rf_data :: string
  rf_open :: bool
  rf_pos :: nat
  rf_error :: bool
  rf_readable :: bool
  rf_writable :: bool
  rf_append :: bool
  rf_strerror :: string

definition rf_valid :: "nat \<Rightarrow> ramfile \<Rightarrow> bool" where
  "rf_valid fp s = (fp = 1 \<and> rf_open s)"

definition ram_fopen :: "string \<Rightarrow> string \<Rightarrow> ramfile \<Rightarrow> nat option \<times> ramfile" where
  "ram_fopen path md s =
     (if path = rf_name s \<and> md \<noteq> [] \<and> hd md \<in> {CHR ''r'', CHR ''w'', CHR ''a''}
         \<and> (rf_exists s \<or> hd md \<noteq> CHR ''r'') \<and> \<not> rf_open s
      then (Some 1,
            s\<lparr>rf_exists := True,
              rf_data := (if hd md = CHR ''w'' \<or> \<not> rf_exists s then [] else rf_data s),
              rf_open := True,
              rf_pos := 0,
              rf_error := False,
              rf_readable := (hd md = CHR ''r'' \<or> CHR ''+'' \<in> set md),
              rf_writable := (CHR ''+'' \<in> set md \<or> hd md \<noteq> CHR ''r''),
              rf_append := (hd md = CHR ''a'')\<rparr>)
      else (None, s))"

definition ram_fread :: "nat \<Rightarrow> nat \<Rightarrow> ramfile \<Rightarrow> string \<times> ramfile" where
  "ram_fread fp n s =
     (if \<not> rf_valid fp s then ([], s)
      else if \<not> rf_readable s then ([], s\<lparr>rf_error := True\<rparr>)
      else (let bs = take n (drop (rf_pos s) (rf_data s))
            in (bs, s\<lparr>rf_pos := rf_pos s + length bs\<rparr>)))"

definition ram_ferror :: "nat \<Rightarrow> ramfile \<Rightarrow> bool" where
  "ram_ferror fp s = rf_error s"

definition ram_fwrite :: "nat \<Rightarrow> string \<Rightarrow> ramfile \<Rightarrow> nat \<times> ramfile" where
  "ram_fwrite fp bs s =
     (if \<not> rf_valid fp s then (0, s)
      else if \<not> rf_writable s then (0, s\<lparr>rf_error := True\<rparr>)
      else (let p = (if rf_append s then length (rf_data s) else rf_pos s);
                padded = rf_data s @ replicate (p + length bs - length (rf_data s)) NUL
            in (length bs, s\<lparr>rf_data := store padded p bs, rf_pos := p + length bs\<rparr>)))"

definition ram_ftell :: "nat \<Rightarrow> ramfile \<Rightarrow> 64 word" where
  "ram_ftell fp s = (if rf_valid fp s then of_nat (rf_pos s) else - 1)"

definition ram_fseek :: "nat \<Rightarrow> 64 word \<Rightarrow> 32 word \<Rightarrow> ramfile \<Rightarrow> 32 word \<times> ramfile" where
  "ram_fseek fp off wh s =
     (if \<not> (rf_valid fp s \<and> wh \<in> {0, 1, 2}) then (- 1, s)
      else (let base = (if wh = 0 then 0 else if wh = 1 then int (rf_pos s)
                        else int (length (rf_data s)));
                target = base + sint off
            in if target < 0 then (- 1, s) else (0, s\<lparr>rf_pos := nat target\<rparr>)))"

definition ram_fclose :: "nat \<Rightarrow> ramfile \<Rightarrow> 32 word \<times> ramfile" where
  "ram_fclose fp s = (if rf_valid fp s then (0, s\<lparr>rf_open := False\<rparr>) else (- 1, s))"

definition ram_fgetln :: "nat \<Rightarrow> ramfile \<Rightarrow> string option \<times> ramfile" where
  "ram_fgetln fp s =
     (if \<not> (rf_valid fp s \<and> rf_readable s \<and> rf_pos s < length (rf_data s)) then (None, s)
      else (let rest = drop (rf_pos s) (rf_data s);
                line = takeWhile (\<lambda>c. c \<noteq> NL) rest;
                result = (if length line < length rest then line @ [NL] else line)
            in (Some result, s\<lparr>rf_pos := rf_pos s + length result\<rparr>)))"

definition ram :: "ramfile stdio" where
  "ram = \<lparr>io_fopen = ram_fopen, io_fread = ram_fread, io_ferror = ram_ferror,
          io_fwrite = ram_fwrite, io_ftell = ram_ftell, io_fseek = ram_fseek,
          io_fclose = ram_fclose, io_fgetln = ram_fgetln, io_strerror = rf_strerror,
          io_fresh = (\<lambda>i. CHR ''?'')\<rparr>"

text \<open>The disk with the file \<^verbatim>\<open>t.txt\<close> holding \<open>bs\<close>, no stream open and no call made.\<close>

definition disk :: "string \<Rightarrow> ramfile world" where
  "disk bs =
     \<lparr>os = \<lparr>rf_name = ''t.txt'', rf_exists = True, rf_data = bs, rf_open = False, rf_pos = 0,
             rf_error = False, rf_readable = False, rf_writable = False, rf_append = False,
             rf_strerror = ''Undefined error: 0''\<rparr>,
      calls = []\<rparr>"

text \<open>A host for the examples: a text converts to itself and a numeral to itself, any
  other value to the text of its type name, and no conversion touches the world. The
  strict host throws for a value that is no text.\<close>

definition demo_typename :: "sq_value \<Rightarrow> string" where
  "demo_typename v =
     (case v of Numeral n \<Rightarrow> ''numeral'' | Text t \<Rightarrow> ''text'' | Veracity b \<Rightarrow> ''veracity''
      | Other x \<Rightarrow> ''other'' | SQ_NI \<Rightarrow> ''ni'' | SQ_UNDEFINED \<Rightarrow> ''undefined'')"

definition demo_host :: "'w host" where
  "demo_host =
     \<lparr>sq_value_to_text =
        (\<lambda>v W. (Inr (case v of Text t \<Rightarrow> t | _ \<Rightarrow> sq_text_new (demo_typename v)), W)),
      sq_value_to_numeral = (\<lambda>v. case v of Numeral n \<Rightarrow> n | _ \<Rightarrow> 0),
      sq_value_typename = demo_typename\<rparr>"

definition strict_host :: "'w host" where
  "strict_host =
     \<lparr>sq_value_to_text =
        (\<lambda>v W. case v of Text t \<Rightarrow> (Inr t, W)
                | _ \<Rightarrow> (Inl (Throw ''cannot convert to a text'' []), W)),
      sq_value_to_numeral = (\<lambda>v. case v of Numeral n \<Rightarrow> n | _ \<Rightarrow> 0),
      sq_value_typename = demo_typename\<rparr>"

text \<open>The journeys before any scroll was initialised, and the scroll that
  \<^verbatim>\<open>sq_scroll_init\<close> builds on \<^verbatim>\<open>t.txt\<close>.\<close>

definition no_journeys :: journeys where
  "no_journeys = \<lparr>write_journey = SQ_UNDEFINED, read_journey = SQ_UNDEFINED,
                  seek_journey = SQ_UNDEFINED, close_journey = SQ_UNDEFINED\<rparr>"

definition t_scroll :: "string \<Rightarrow> sq_scroll" where
  "t_scroll md = \<lparr>file_ptr = 1, filename = ''t.txt'' @ [NUL], mode = md @ [NUL]\<rparr>"

text \<open>The world after \<^verbatim>\<open>sq_scroll_init\<close> has opened \<^verbatim>\<open>t.txt\<close>, holding \<open>bs\<close>, in the
  mode \<open>md\<close>.\<close>

definition opened :: "string \<Rightarrow> string \<Rightarrow> ramfile world" where
  "opened md bs = snd (snd (sq_scroll_init ram ''t.txt'' md no_journeys (disk bs)))"

text \<open>A stream as \<^verbatim>\<open>fopen\<close> leaves it in a mode that reads and writes and does not
  append (\<^verbatim>\<open>w+\<close>, \<^verbatim>\<open>r+\<close>): open, at position 0, with no error recorded.\<close>

definition fresh_stream :: "ramfile world \<Rightarrow> bool" where
  "fresh_stream W = (rf_open (os W) \<and> rf_readable (os W) \<and> rf_writable (os W)
     \<and> \<not> rf_append (os W) \<and> \<not> rf_error (os W) \<and> rf_pos (os W) = 0)"

text \<open>The scenario of section 8 of the spec: \<^verbatim>\<open>write(t)\<close>, \<^verbatim>\<open>seek(0, 0)\<close>,
  \<^verbatim>\<open>read(t.length)\<close> on one scroll, stopping at the first call that throws.\<close>

definition write_seek_read ::
  "'w stdio \<Rightarrow> 'w host \<Rightarrow> sq_scroll \<Rightarrow> sq_text \<Rightarrow> 'w world \<Rightarrow> (exn + sq_value) \<times> 'w world" where
  "write_seek_read io h scroll t W =
     (case write_func io h \<lparr>pargv = [Other (Scroll scroll), Text t], kwargc = 0\<rparr> W of
        (Inl e, W1) \<Rightarrow> (Inl e, W1)
      | (Inr u, W1) \<Rightarrow>
          (case seek_func io h
                  \<lparr>pargv = [Other (Scroll scroll), Numeral 0, Numeral 0], kwargc = 0\<rparr> W1 of
             (Inl e, W2) \<Rightarrow> (Inl e, W2)
           | (Inr v, W2) \<Rightarrow>
               read_func io h
                 \<lparr>pargv = [Other (Scroll scroll), Numeral (of_nat (length_t t))], kwargc = 0\<rparr> W2))"

section \<open>Unfolding the embedding\<close>

lemmas scroll_defs = sq_scroll_init_def sq_scroll_close_def sq_scroll_deallocate_def
  sq_scroll_read_def sq_scroll_write_def sq_scroll_seek_def sq_scroll_tell_def
  sq_scroll_read_all_def sq_scroll_get_attr_def

lemmas func_defs = write_func_def read_func_def seek_func_def close_func_def pargc_def

lemmas libc_defs = fopen_def fread_def ferror_def fwrite_def ftell_def fseek_def fclose_def
  fgetln_def

lemmas ram_defs = ram_def ram_fopen_def ram_fread_def ram_ferror_def ram_fwrite_def
  ram_ftell_def ram_fseek_def ram_fclose_def ram_fgetln_def rf_valid_def disk_def opened_def
  no_journeys_def t_scroll_def demo_host_def strict_host_def demo_typename_def

lemmas cstring_defs = cstr_def strlen_def strcmp_def strdup_def strndup_def store_def
  to_unsigned_def sq_text_new_def sq_text_allocate_def text_bytes_def NEW_JOURNEY_def

lemma calls_opened: "calls (opened md bs) = [Fopen ''t.txt'' (cstr md)]"
  by (simp add: opened_def sq_scroll_init_def fopen_def disk_def cstr_def split: prod.split option.split)

lemma cstr_terminated: "cstr (cstr p @ NUL # q) = cstr p"
  by (induction p) (simp_all add: cstr_def)

lemma store_nil: "store buf i [] = buf"
  by (simp add: store_def)

section \<open>Attributes\<close>

text \<open>
  Claim C4, as the code has it. After a successful \<^verbatim>\<open>sq_scroll_init\<close>, the attribute
  \<^verbatim>\<open>filename\<close> is a new text holding the file name and \<^verbatim>\<open>mode\<close> a new text holding
  the mode; \<^verbatim>\<open>write\<close>, \<^verbatim>\<open>read\<close> and \<^verbatim>\<open>seek\<close> are the journeys named
  \<^verbatim>\<open>Scroll.write\<close>, \<^verbatim>\<open>Scroll.read\<close> and \<^verbatim>\<open>Scroll.seek\<close> with 2, 2 and 3 arguments;
  every name other than these five and \<^verbatim>\<open>close\<close> gives \<^verbatim>\<open>SQ_UNDEFINED\<close>.
\<close>

theorem get_attr_after_init:
  assumes "sq_scroll_init io fname md g W = (Inr scroll, g', W')"
  shows "sq_scroll_get_attr g' scroll ''filename''
           = Text \<lparr>ptr = cstr fname @ [NUL], length_t = length (cstr fname)\<rparr>
     \<and> sq_scroll_get_attr g' scroll ''mode''
           = Text \<lparr>ptr = cstr md @ [NUL], length_t = length (cstr md)\<rparr>
     \<and> sq_scroll_get_attr g' scroll ''write''
           = Other (Builtin_Journey \<lparr>name = ''Scroll.write'', nargs = 2, func = Write_func\<rparr>)
     \<and> sq_scroll_get_attr g' scroll ''read''
           = Other (Builtin_Journey \<lparr>name = ''Scroll.read'', nargs = 2, func = Read_func\<rparr>)
     \<and> sq_scroll_get_attr g' scroll ''seek''
           = Other (Builtin_Journey \<lparr>name = ''Scroll.seek'', nargs = 3, func = Seek_func\<rparr>)
     \<and> (cstr attr \<notin> {''filename'', ''mode'', ''write'', ''read'', ''seek'', ''close''}
          \<longrightarrow> sq_scroll_get_attr g' scroll attr = SQ_UNDEFINED)"
proof -
  obtain fp where scroll: "scroll = \<lparr>file_ptr = fp, filename = strdup fname, mode = strdup md\<rparr>"
    and g': "g' = \<lparr>write_journey = NEW_JOURNEY ''write'' 2 Write_func,
            read_journey = NEW_JOURNEY ''read'' 2 Read_func,
            seek_journey = NEW_JOURNEY ''seek'' 3 Seek_func,
            close_journey = NEW_JOURNEY ''close'' 1 Close_func\<rparr>"
    using assms by (auto simp: sq_scroll_init_def split: prod.splits option.splits)
  have names: "cstr ''filename'' = ''filename''" "cstr ''mode'' = ''mode''"
    "cstr ''write'' = ''write''" "cstr ''read'' = ''read''" "cstr ''seek'' = ''seek''"
    by (simp_all add: cstr_def)
  show ?thesis
    unfolding scroll g'
    by (simp add: sq_scroll_get_attr_def strcmp_def names sq_text_new_def strlen_def
        NEW_JOURNEY_def strdup_def cstr_terminated)
qed

theorem get_attr_after_init_witness:
  "sq_scroll_get_attr (fst (snd (sq_scroll_init ram ''t.txt'' ''w+'' no_journeys (disk []))))
       (t_scroll ''w+'') ''filename''
     = Text \<lparr>ptr = ''t.txt'' @ [NUL], length_t = 5\<rparr>
   \<and> sq_scroll_get_attr (fst (snd (sq_scroll_init ram ''t.txt'' ''w+'' no_journeys (disk []))))
       (t_scroll ''w+'') ''seek''
     = Other (Builtin_Journey \<lparr>name = ''Scroll.seek'', nargs = 3, func = Seek_func\<rparr>)
   \<and> sq_scroll_get_attr (fst (snd (sq_scroll_init ram ''t.txt'' ''w+'' no_journeys (disk []))))
       (t_scroll ''w+'') ''size''
     = SQ_UNDEFINED"
proof -
  have init: "sq_scroll_init ram ''t.txt'' ''w+'' no_journeys (disk [])
      = (Inr (t_scroll ''w+''),
         fst (snd (sq_scroll_init ram ''t.txt'' ''w+'' no_journeys (disk []))),
         snd (snd (sq_scroll_init ram ''t.txt'' ''w+'' no_journeys (disk []))))"
    by (simp add: scroll_defs libc_defs ram_defs cstring_defs)
  have other: "cstr ''size'' \<notin> {''filename'', ''mode'', ''write'', ''read'', ''seek'', ''close''}"
    by (simp add: cstr_def)
  from get_attr_after_init [OF init, of "''size''"] other show ?thesis
    by (simp add: cstr_def)
qed

text \<open>
  Claim C4 as the spec states it fails: on the scroll opened on \<^verbatim>\<open>t.txt\<close>, the names
  \<^verbatim>\<open>path\<close> and \<^verbatim>\<open>close\<close> both give \<^verbatim>\<open>SQ_UNDEFINED\<close>, not the file name and not the
  close journey that \<^verbatim>\<open>sq_scroll_init\<close> made.
\<close>

theorem get_attr_path_and_close_undefined:
  "sq_scroll_get_attr (fst (snd (sq_scroll_init ram ''t.txt'' ''w+'' no_journeys (disk []))))
       (t_scroll ''w+'') ''path'' = SQ_UNDEFINED
   \<and> sq_scroll_get_attr (fst (snd (sq_scroll_init ram ''t.txt'' ''w+'' no_journeys (disk []))))
       (t_scroll ''w+'') ''close'' = SQ_UNDEFINED
   \<and> close_journey (fst (snd (sq_scroll_init ram ''t.txt'' ''w+'' no_journeys (disk []))))
       = Other (Builtin_Journey \<lparr>name = ''Scroll.close'', nargs = 1, func = Close_func\<rparr>)"
  by (simp add: scroll_defs libc_defs ram_defs cstring_defs)

section \<open>Closing, and the calls every operation makes\<close>

lemma fread_calls: "calls (snd (fread io fp n W)) = calls W @ [Fread fp n]"
  by (simp add: fread_def split: prod.split)

lemma read_loop_calls:
  "\<exists>rest. calls (snd (snd (read_loop io fp len position buf W)))
     = calls W @ Fread fp (len - position) # rest"
proof (induction io fp len position buf W rule: read_loop.induct)
  case (1 io fp len position buf W)
  let ?r = "fread io fp (len - position) W"
  let ?nread = "to_unsigned (length (fst ?r))"
  show ?case
  proof (cases "?nread = 0")
    case True
    then show ?thesis
      by (subst read_loop.simps) (simp add: Let_def fread_calls)
  next
    case False
    from "1.IH" [OF refl refl refl False]
    obtain rest where "calls (snd (snd (read_loop io fp len (position + ?nread)
        (store buf position (fst ?r)) (snd ?r))))
      = calls (snd ?r) @ Fread fp (len - (position + ?nread)) # rest"
      by blast
    then show ?thesis
      using False by (subst read_loop.simps) (simp add: Let_def fread_calls)
  qed
qed

lemma sq_scroll_read_calls:
  "\<exists>rest. calls (snd (sq_scroll_read io scroll len W))
     = calls W @ Fread (file_ptr scroll) len # rest"
proof -
  obtain rest where "calls (snd (snd (read_loop io (file_ptr scroll) len 0
      (ptr (sq_text_allocate (io_fresh io) len)) W)))
    = calls W @ Fread (file_ptr scroll) (len - 0) # rest"
    using read_loop_calls by blast
  then show ?thesis
    by (auto simp: sq_scroll_read_def Let_def ferror_def split: prod.split)
qed

lemma sq_scroll_close_calls:
  "calls (snd (sq_scroll_close io scroll W)) = calls W @ [Fclose (file_ptr scroll)]"
  by (cases "io_fclose io (file_ptr scroll) (os W)") (simp add: sq_scroll_close_def fclose_def)

lemma sq_scroll_close_result:
  "fst (sq_scroll_close io scroll W)
     = (if fst (io_fclose io (file_ptr scroll) (os W)) \<noteq> 0 then Inl (Throw_io fmt_close [])
        else Inr ())"
  by (cases "io_fclose io (file_ptr scroll) (os W)") (simp add: sq_scroll_close_def fclose_def)

lemma sq_scroll_write_calls:
  "calls (snd (sq_scroll_write io scroll p len W))
     = calls W @ [Fwrite (file_ptr scroll) (take len p)]"
  by (cases "io_fwrite io (file_ptr scroll) (take len p) (os W)")
    (simp add: sq_scroll_write_def fwrite_def)

lemma sq_scroll_seek_calls:
  "calls (snd (sq_scroll_seek io scroll off wh W)) = calls W @ [Fseek (file_ptr scroll) off wh]"
  by (cases "io_fseek io (file_ptr scroll) off wh (os W)")
    (simp add: sq_scroll_seek_def fseek_def)

lemma sq_scroll_deallocate_calls:
  "calls (sq_scroll_deallocate io scroll W) = calls W @ [Fclose (file_ptr scroll)]"
  by (cases "io_fclose io (file_ptr scroll) (os W)") (simp add: sq_scroll_deallocate_def fclose_def)

text \<open>
  Claim C2, as the code has it. A scroll keeps no Open/Closed state: its fields are the
  stream, the file name and the mode. In every world, \<^verbatim>\<open>sq_scroll_close\<close> logs one
  \<^verbatim>\<open>fclose\<close> on the scroll's stream and throws an IO error exactly when \<^verbatim>\<open>fclose\<close>
  reports a failure; \<^verbatim>\<open>sq_scroll_write\<close> logs one \<^verbatim>\<open>fwrite\<close>, \<^verbatim>\<open>sq_scroll_seek\<close> one
  \<^verbatim>\<open>fseek\<close>, and \<^verbatim>\<open>sq_scroll_read\<close> starts with an \<^verbatim>\<open>fread\<close>: no operation looks at what
  was called before.
\<close>

theorem scroll_operations_always_call_the_library:
  "calls (snd (sq_scroll_close io scroll W)) = calls W @ [Fclose (file_ptr scroll)]
   \<and> fst (sq_scroll_close io scroll W)
       = (if fst (io_fclose io (file_ptr scroll) (os W)) \<noteq> 0 then Inl (Throw_io fmt_close [])
          else Inr ())
   \<and> calls (snd (sq_scroll_write io scroll p len W))
       = calls W @ [Fwrite (file_ptr scroll) (take len p)]
   \<and> calls (snd (sq_scroll_seek io scroll off wh W))
       = calls W @ [Fseek (file_ptr scroll) off wh]
   \<and> (\<exists>rest. calls (snd (sq_scroll_read io scroll n W))
       = calls W @ Fread (file_ptr scroll) n # rest)"
  using sq_scroll_read_calls [of io scroll n W]
  by (simp only: sq_scroll_close_calls sq_scroll_close_result sq_scroll_write_calls
      sq_scroll_seek_calls simp_thms)

text \<open>
  Claim C2 as the spec states it fails: on the scroll that \<^verbatim>\<open>sq_scroll_init\<close> opens on
  \<^verbatim>\<open>t.txt\<close>, a second close reaches the operating system, and so does a deallocation
  after a close: each time the log holds two \<^verbatim>\<open>fclose\<close> calls on the same stream.
\<close>

theorem second_close_reaches_fclose:
  "fst (sq_scroll_init ram ''t.txt'' ''w+'' no_journeys (disk [])) = Inr (t_scroll ''w+'')
   \<and> calls (snd (sq_scroll_close ram (t_scroll ''w+'') (opened ''w+'' [])))
       = [Fopen ''t.txt'' ''w+'', Fclose 1]
   \<and> calls (snd (sq_scroll_close ram (t_scroll ''w+'')
               (snd (sq_scroll_close ram (t_scroll ''w+'') (opened ''w+'' [])))))
       = [Fopen ''t.txt'' ''w+'', Fclose 1, Fclose 1]
   \<and> calls (sq_scroll_deallocate ram (t_scroll ''w+'')
               (snd (sq_scroll_close ram (t_scroll ''w+'') (opened ''w+'' []))))
       = [Fopen ''t.txt'' ''w+'', Fclose 1, Fclose 1]"
  by (simp add: scroll_defs libc_defs ram_defs cstring_defs)

section \<open>The read journey\<close>

text \<open>
  Claim C9. For every scroll, \<^verbatim>\<open>read\<close> with a negative numeral throws
  "can only read nonnegative amounts" and leaves the world as it was: no call of the
  operating system is logged and its state is unchanged.
\<close>

theorem read_negative_throws_before_any_call:
  assumes "sint n < 0"
  shows "read_func io h \<lparr>pargv = [Other (Scroll scroll), Numeral n], kwargc = 0\<rparr> W
         = (Inl (Throw ''can only read nonnegative amounts'' []), W)"
  using assms by (simp add: read_func_def pargc_def)

theorem read_negative_throws_before_any_call_witness:
  "sint (- 1 :: 64 word) < 0
   \<and> read_func ram demo_host
        \<lparr>pargv = [Other (Scroll (t_scroll ''r'')), Numeral (- 1)], kwargc = 0\<rparr> (opened ''r'' ''abc'')
      = (Inl (Throw ''can only read nonnegative amounts'' []), opened ''r'' ''abc'')"
proof -
  have neg: "sint (- 1 :: 64 word) < 0"
    by simp
  from read_negative_throws_before_any_call [OF neg] neg show ?thesis
    by simp
qed

text \<open>
  Claim C1 fails on the code. The stream holds the three bytes \<^verbatim>\<open>abc\<close> and \<^verbatim>\<open>read(5)\<close>
  is called. The loop reads three bytes, then none, and the call succeeds; but the text
  returned has the length 5 that \<^verbatim>\<open>sq_text_allocate\<close> was asked for: the code ends the
  buffer with a zero byte at position 3 and never sets \<^verbatim>\<open>text->length\<close>. Its fifth byte
  is what the allocator left there.
\<close>

theorem read_past_end_keeps_requested_length:
  "fst (sq_scroll_init ram ''t.txt'' ''r'' no_journeys (disk ''abc'')) = Inr (t_scroll ''r'')
   \<and> read_func ram demo_host
      \<lparr>pargv = [Other (Scroll (t_scroll ''r'')), Numeral 5], kwargc = 0\<rparr> (opened ''r'' ''abc'')
    = (Inr (Text \<lparr>ptr = ''abc'' @ [NUL] @ ''??'', length_t = 5\<rparr>),
       \<lparr>os = (os (opened ''r'' ''abc''))\<lparr>rf_pos := 3\<rparr>,
        calls = [Fopen ''t.txt'' ''r'', Fread 1 5, Fread 1 2, Ferror 1]\<rparr>)"
  by (simp add: func_defs scroll_defs libc_defs ram_defs cstring_defs read_loop.simps Let_def
      upt_rec)

text \<open>
  Claim C5 fails on the code. The stream holds the line \<^verbatim>\<open>a\0b\n\<close> and then \<^verbatim>\<open>c\<close>;
  \<^verbatim>\<open>read("\n")\<close> takes the four bytes of the line from the stream, and returns the text
  \<^verbatim>\<open>a\<close> of length 1: \<^verbatim>\<open>strndup\<close> stops at the zero byte. (On the empty file the same
  call throws the description of \<^verbatim>\<open>errno\<close>, through \<^verbatim>\<open>sq_throw\<close>.)
\<close>

theorem read_line_stops_at_zero_byte:
  "fst (sq_scroll_init ram ''t.txt'' ''r'' no_journeys
          (disk [CHR ''a'', NUL, CHR ''b'', NL, CHR ''c''])) = Inr (t_scroll ''r'')
   \<and> read_func ram demo_host
      \<lparr>pargv = [Other (Scroll (t_scroll ''r'')), Text \<lparr>ptr = [NL, NUL], length_t = 1\<rparr>],
       kwargc = 0\<rparr>
      (opened ''r'' [CHR ''a'', NUL, CHR ''b'', NL, CHR ''c''])
    = (Inr (Text \<lparr>ptr = [CHR ''a'', NUL], length_t = 1\<rparr>),
       \<lparr>os = (os (opened ''r'' [CHR ''a'', NUL, CHR ''b'', NL, CHR ''c'']))\<lparr>rf_pos := 4\<rparr>,
        calls = [Fopen ''t.txt'' ''r'', Fgetln 1]\<rparr>)
   \<and> read_func ram demo_host
      \<lparr>pargv = [Other (Scroll (t_scroll ''r'')), Text \<lparr>ptr = [NL, NUL], length_t = 1\<rparr>],
       kwargc = 0\<rparr>
      (opened ''r'' [])
    = (Inl (Throw ''Undefined error: 0'' []),
       \<lparr>os = os (opened ''r'' []), calls = [Fopen ''t.txt'' ''r'', Fgetln 1]\<rparr>)"
  by (simp add: func_defs scroll_defs libc_defs ram_defs cstring_defs Let_def)

text \<open>
  Claim C6 fails on the code: \<^verbatim>\<open>read\<close> with \<^verbatim>\<open>SQ_NI\<close> reaches
  \<^verbatim>\<open>sq_scroll_read_all\<close>, whose body is \<^verbatim>\<open>die("todo: sq_scroll_read_all")\<close>. For every
  scroll and world the call ends the process and reads nothing.
\<close>

theorem read_ni_dies:
  "read_func io h \<lparr>pargv = [Other (Scroll scroll), SQ_NI], kwargc = 0\<rparr> W
     = (Inl (Die ''todo: sq_scroll_read_all''), W)"
  by (simp add: read_func_def pargc_def sq_scroll_read_all_def)

text \<open>Whatever the stream hands over, the text of a successful \<^verbatim>\<open>sq_scroll_read\<close> has the
  length that was asked for.\<close>

theorem sq_scroll_read_length:
  assumes "fst (sq_scroll_read io scroll len W) = Inr t"
  shows "length_t t = len"
  using assms
  by (auto simp: sq_scroll_read_def Let_def sq_text_allocate_def split: prod.splits if_splits)

lemma cstr_no_zero: "NUL \<notin> set p \<Longrightarrow> cstr p = p"
  by (induction p) (auto simp: cstr_def)

theorem sq_scroll_read_length_witness:
  "fst (sq_scroll_read ram (t_scroll ''r'') 5 (opened ''r'' ''abc''))
     = Inr \<lparr>ptr = ''abc'' @ [NUL] @ ''??'', length_t = 5\<rparr>
   \<and> length_t \<lparr>ptr = ''abc'' @ [NUL] @ ''??'', length_t = 5\<rparr> = 5"
proof -
  have ev: "fst (sq_scroll_read ram (t_scroll ''r'') 5 (opened ''r'' ''abc''))
     = Inr \<lparr>ptr = ''abc'' @ [NUL] @ ''??'', length_t = 5\<rparr>"
    by (simp add: scroll_defs libc_defs ram_defs cstring_defs read_loop.simps Let_def upt_rec)
  from sq_scroll_read_length [OF ev] ev show ?thesis
    by simp
qed

text \<open>A line without a zero byte is returned whole by \<^verbatim>\<open>read("\n")\<close>, its terminator
  included when \<^verbatim>\<open>fgetln\<close> hands one over.\<close>

theorem read_line_without_zero:
  assumes line: "io_fgetln io (file_ptr scroll) (os W) = (Some line, s)"
    and nz: "NUL \<notin> set line" and nl: "cstr (ptr t) = [NL]"
  shows "fst (read_func io h \<lparr>pargv = [Other (Scroll scroll), Text t], kwargc = 0\<rparr> W)
     = Inr (Text \<lparr>ptr = line @ [NUL], length_t = length line\<rparr>)"
proof -
  have dup: "strndup line (length line) = line @ [NUL]"
    by (simp add: strndup_def cstr_no_zero [OF nz])
  have len: "strlen (line @ [NUL]) = length line"
    using cstr_terminated [of line "[]"] by (simp add: strlen_def cstr_no_zero [OF nz])
  have cmp: "strcmp (ptr t) [NL] = 0"
    by (simp add: strcmp_def nl) (simp add: cstr_def)
  show ?thesis
    by (simp add: read_func_def pargc_def cmp fgetln_def line dup sq_text_new_def len)
qed

theorem read_line_without_zero_witness:
  "fst (read_func ram demo_host
      \<lparr>pargv = [Other (Scroll (t_scroll ''r'')), Text \<lparr>ptr = [NL, NUL], length_t = 1\<rparr>],
       kwargc = 0\<rparr>
      (opened ''r'' (''hello'' @ [NL] @ ''world'')))
    = Inr (Text \<lparr>ptr = ''hello'' @ [NL, NUL], length_t = 6\<rparr>)"
proof -
  have line: "io_fgetln ram (file_ptr (t_scroll ''r'')) (os (opened ''r'' (''hello'' @ [NL] @ ''world'')))
      = (Some (''hello'' @ [NL]), (os (opened ''r'' (''hello'' @ [NL] @ ''world'')))\<lparr>rf_pos := 6\<rparr>)"
    by (simp add: scroll_defs libc_defs ram_defs cstring_defs Let_def)
  have nz: "NUL \<notin> set (''hello'' @ [NL])"
    by simp
  have nl: "cstr (ptr \<lparr>ptr = [NL, NUL], length_t = 1\<rparr>) = [NL]"
    by (simp add: cstr_def)
  from read_line_without_zero [OF line nz nl, of demo_host] show ?thesis
    by simp
qed

section \<open>The write journey\<close>

text \<open>
  Claim C7. Let \<open>t\<close> be the text the host's conversion returns for the argument, with a
  buffer that holds its \<open>length_t t\<close> bytes, and \<open>W1\<close> the world the conversion left.
  \<^verbatim>\<open>write\<close> makes one call of the operating system, an
  \<^verbatim>\<open>fwrite\<close> of exactly these \<open>length_t t\<close> bytes on the scroll's stream (where they
  land is the stream's business). When \<^verbatim>\<open>fwrite\<close> reports fewer bytes than that, an IO
  error is thrown whose arguments are the requested length and the file name; otherwise
  the result is \<^verbatim>\<open>SQ_NI\<close>.
\<close>

theorem write_func_writes_length_bytes:
  assumes "sq_value_to_text h v W = (Inr t, W1)" and "length_t t \<le> length (ptr t)"
    and "io_fwrite io (file_ptr scroll) (text_bytes t) (os W1) = (n, s)"
  shows "write_func io h \<lparr>pargv = [Other (Scroll scroll), v], kwargc = 0\<rparr> W
     = (if n < length_t t
        then Inl (Throw_io fmt_write [Zu (length_t t), S (cstr (filename scroll))])
        else Inr SQ_NI,
        \<lparr>os = s, calls = calls W1 @ [Fwrite (file_ptr scroll) (text_bytes t)]\<rparr>)
     \<and> length (text_bytes t) = length_t t"
  using assms
  by (simp add: write_func_def pargc_def sq_scroll_write_def fwrite_def text_bytes_def Let_def)

text \<open>On a stream opened for reading only the write transfers nothing and the error is
  thrown; on one opened with \<^verbatim>\<open>w+\<close> the two bytes reach the file.\<close>

theorem write_func_writes_length_bytes_witness:
  "write_func ram demo_host
      \<lparr>pargv = [Other (Scroll (t_scroll ''r'')), Text \<lparr>ptr = ''hi'' @ [NUL], length_t = 2\<rparr>],
       kwargc = 0\<rparr>
      (opened ''r'' ''abc'')
    = (Inl (Throw_io fmt_write [Zu 2, S ''t.txt'']),
       \<lparr>os = (os (opened ''r'' ''abc''))\<lparr>rf_error := True\<rparr>,
        calls = [Fopen ''t.txt'' ''r'', Fwrite 1 ''hi'']\<rparr>)
   \<and> write_func ram demo_host
      \<lparr>pargv = [Other (Scroll (t_scroll ''w+'')), Text \<lparr>ptr = ''hi'' @ [NUL], length_t = 2\<rparr>],
       kwargc = 0\<rparr>
      (opened ''w+'' ''abc'')
    = (Inr SQ_NI,
       \<lparr>os = (os (opened ''w+'' ''abc''))\<lparr>rf_data := ''hi'', rf_pos := 2\<rparr>,
        calls = [Fopen ''t.txt'' ''w+'', Fwrite 1 ''hi'']\<rparr>)"
proof -
  let ?t = "\<lparr>ptr = ''hi'' @ [NUL], length_t = 2\<rparr>"
  have conv: "sq_value_to_text demo_host (Text ?t) W = (Inr ?t, W)" for W :: "ramfile world"
    by (simp add: demo_host_def)
  have wf: "length_t ?t \<le> length (ptr ?t)"
    by simp
  have short: "io_fwrite ram (file_ptr (t_scroll ''r'')) (text_bytes ?t) (os (opened ''r'' ''abc''))
      = (0, (os (opened ''r'' ''abc''))\<lparr>rf_error := True\<rparr>)"
    by (simp add: scroll_defs libc_defs ram_defs cstring_defs)
  have full: "io_fwrite ram (file_ptr (t_scroll ''w+'')) (text_bytes ?t) (os (opened ''w+'' ''abc''))
      = (2, (os (opened ''w+'' ''abc''))\<lparr>rf_data := ''hi'', rf_pos := 2\<rparr>)"
    by (simp add: scroll_defs libc_defs ram_defs cstring_defs Let_def)
  from write_func_writes_length_bytes [OF conv wf short]
    write_func_writes_length_bytes [OF conv wf full]
  show ?thesis
    by (simp add: calls_opened t_scroll_def text_bytes_def cstr_def)
qed



section \<open>The seek journey\<close>

text \<open>
  Claim C8. \<^verbatim>\<open>seek\<close> calls \<^verbatim>\<open>fseek\<close> with the offset and with the whence converted to
  an \<^verbatim>\<open>int\<close>. When \<^verbatim>\<open>fseek\<close> fails, an IO error is thrown whose arguments are the whence
  and the file name, and nothing else is called. When it succeeds, the next call is
  \<^verbatim>\<open>ftell\<close> on the state \<^verbatim>\<open>fseek\<close> left: a negative answer throws an IO error, any other
  answer is the numeral returned.
\<close>

theorem seek_func_returns_tell:
  assumes "sq_value_to_numeral h a = off" and "ucast (sq_value_to_numeral h b) = wh"
    and "io_fseek io (file_ptr scroll) off wh (os W) = (r, s)"
    and "io_ftell io (file_ptr scroll) s = v"
  shows "seek_func io h \<lparr>pargv = [Other (Scroll scroll), a, b], kwargc = 0\<rparr> W
     = (if r \<noteq> 0 then
          (Inl (Throw_io fmt_seek [D (sint wh), S (cstr (filename scroll))]),
           \<lparr>os = s, calls = calls W @ [Fseek (file_ptr scroll) off wh]\<rparr>)
        else
          (if sint v < 0 then Inl (Throw_io fmt_tell [S (cstr (filename scroll))])
           else Inr (Numeral v),
           \<lparr>os = s,
            calls = calls W @ [Fseek (file_ptr scroll) off wh, Ftell (file_ptr scroll)]\<rparr>))"
  using assms
  by (simp add: seek_func_def pargc_def sq_scroll_seek_def sq_scroll_tell_def fseek_def
      ftell_def Let_def)

text \<open>Seeking to offset 2 from the start returns 2; seeking to offset -1 from the start
  fails in \<^verbatim>\<open>fseek\<close> and throws.\<close>

theorem seek_func_returns_tell_witness:
  "seek_func ram demo_host
      \<lparr>pargv = [Other (Scroll (t_scroll ''r'')), Numeral 2, Numeral 0], kwargc = 0\<rparr>
      (opened ''r'' ''abc'')
    = (Inr (Numeral 2),
       \<lparr>os = (os (opened ''r'' ''abc''))\<lparr>rf_pos := 2\<rparr>,
        calls = [Fopen ''t.txt'' ''r'', Fseek 1 2 0, Ftell 1]\<rparr>)
   \<and> seek_func ram demo_host
      \<lparr>pargv = [Other (Scroll (t_scroll ''r'')), Numeral (- 1), Numeral 0], kwargc = 0\<rparr>
      (opened ''r'' ''abc'')
    = (Inl (Throw_io fmt_seek [D 0, S ''t.txt'']),
       \<lparr>os = os (opened ''r'' ''abc''),
        calls = [Fopen ''t.txt'' ''r'', Fseek 1 (- 1) 0]\<rparr>)"
proof -
  have a: "sq_value_to_numeral demo_host (Numeral 2) = 2"
    "sq_value_to_numeral demo_host (Numeral (- 1)) = - 1"
    by (simp_all add: demo_host_def)
  have b: "ucast (sq_value_to_numeral demo_host (Numeral 0)) = (0 :: 32 word)"
    by (simp add: demo_host_def)
  have ok: "io_fseek ram (file_ptr (t_scroll ''r'')) 2 0 (os (opened ''r'' ''abc''))
      = (0, (os (opened ''r'' ''abc''))\<lparr>rf_pos := 2\<rparr>)"
    by (simp add: scroll_defs libc_defs ram_defs cstring_defs Let_def)
  have tl: "io_ftell ram (file_ptr (t_scroll ''r'')) ((os (opened ''r'' ''abc''))\<lparr>rf_pos := 2\<rparr>) = 2"
    by (simp add: scroll_defs libc_defs ram_defs cstring_defs Let_def)
  have bad: "io_fseek ram (file_ptr (t_scroll ''r'')) (- 1) 0 (os (opened ''r'' ''abc''))
      = (- 1, os (opened ''r'' ''abc''))"
    by (simp add: scroll_defs libc_defs ram_defs cstring_defs Let_def)
  from seek_func_returns_tell [OF a(1) b ok tl] seek_func_returns_tell [OF a(2) b bad refl]
  show ?thesis
    by (simp add: calls_opened t_scroll_def cstr_def)
qed

section \<open>Write, seek, read\<close>

lemma sint_of_nat_64: "n < 2 ^ 63 \<Longrightarrow> sint (of_nat n :: 64 word) = int n"
  by (simp add: signed_of_nat signed_take_bit_int_eq_self)

lemma unat_of_nat_64: "n < 2 ^ 63 \<Longrightarrow> unat (of_nat n :: 64 word) = n"
  by (simp add: unat_of_nat)

lemma fread_ram:
  assumes "rf_valid fp (os W)" "rf_readable (os W)"
  shows "fread ram fp n W =
    (take n (drop (rf_pos (os W)) (rf_data (os W))),
     \<lparr>os = (os W)\<lparr>rf_pos := rf_pos (os W) + length (take n (drop (rf_pos (os W)) (rf_data (os W))))\<rparr>,
      calls = calls W @ [Fread fp n]\<rparr>)"
  using assms by (simp add: fread_def ram_def ram_fread_def Let_def)

lemma init_fresh:
  assumes init: "sq_scroll_init ram fname md g W0 = (Inr scroll, g', W)"
    and plus: "CHR ''+'' \<in> set (cstr md)" and noapp: "hd (cstr md) \<noteq> CHR ''a''"
  shows "fresh_stream W \<and> file_ptr scroll = 1"
  using assms
  by (auto simp: sq_scroll_init_def fopen_def ram_def ram_fopen_def fresh_stream_def
      split: prod.splits option.splits if_splits)


lemma write_func_ram:
  assumes fs: "fresh_stream W" and fp: "file_ptr scroll = 1"
    and host: "sq_value_to_text h (Text t) W = (Inr t, W)" and wf: "length_t t \<le> length (ptr t)"
  shows "write_func ram h \<lparr>pargv = [Other (Scroll scroll), Text t], kwargc = 0\<rparr> W =
     (Inr SQ_NI,
      \<lparr>os = (os W)\<lparr>rf_data := text_bytes t @ drop (length_t t) (rf_data (os W)),
                   rf_pos := length_t t\<rparr>,
       calls = calls W @ [Fwrite (file_ptr scroll) (text_bytes t)]\<rparr>)"
  using assms
  by (simp add: write_func_def pargc_def sq_scroll_write_def fresh_stream_def fwrite_def ram_def
      ram_fwrite_def rf_valid_def Let_def store_def text_bytes_def)

lemma seek_func_ram:
  assumes op: "rf_open (os W)" and fp: "file_ptr scroll = 1"
    and host: "sq_value_to_numeral h (Numeral 0) = 0"
  shows "seek_func ram h \<lparr>pargv = [Other (Scroll scroll), Numeral 0, Numeral 0], kwargc = 0\<rparr> W =
     (Inr (Numeral 0),
      \<lparr>os = (os W)\<lparr>rf_pos := 0\<rparr>, calls = calls W @ [Fseek (file_ptr scroll) 0 0, Ftell (file_ptr scroll)]\<rparr>)"
  using assms
  by (simp add: seek_func_def pargc_def sq_scroll_seek_def sq_scroll_tell_def fseek_def ftell_def
      ram_def ram_fseek_def ram_ftell_def rf_valid_def Let_def)

lemma read_loop_ram:
  assumes op: "rf_valid fp (os W)" and rd: "rf_readable (os W)"
    and bs: "bs = take (len - position) (drop (rf_pos (os W)) (rf_data (os W)))"
    and small: "length bs < 2 ^ 32"
  shows "read_loop ram fp len position buf W =
    (position + length bs, store buf position bs,
     \<lparr>os = (os W)\<lparr>rf_pos := rf_pos (os W) + length bs\<rparr>,
      calls = calls W @ Fread fp (len - position)
                # (if bs = [] then [] else [Fread fp (len - position - length bs)])\<rparr>)"
proof -
  let ?W1 = "\<lparr>os = (os W)\<lparr>rf_pos := rf_pos (os W) + length bs\<rparr>,
      calls = calls W @ [Fread fp (len - position)]\<rparr>"
  have first: "fread ram fp (len - position) W = (bs, ?W1)"
    using op rd by (simp add: fread_ram bs)
  show ?thesis
  proof (cases "bs = []")
    case True
    show ?thesis
      by (subst read_loop.simps) (simp add: first True to_unsigned_def store_nil Let_def)
  next
    case False
    have nread: "to_unsigned (length bs) = length bs" "length bs \<noteq> 0"
      using small False by (simp_all add: to_unsigned_def)
    have op1: "rf_valid fp (os ?W1)" "rf_readable (os ?W1)"
      using op rd by (simp_all add: rf_valid_def)
    have rest: "take (len - (position + length bs))
        (drop (rf_pos (os W) + length bs) (rf_data (os W))) = []"
      unfolding bs by (simp add: min_def, arith)
    have second: "fread ram fp (len - (position + length bs)) ?W1
        = ([], \<lparr>os = (os W)\<lparr>rf_pos := rf_pos (os W) + length bs\<rparr>,
          calls = calls W @ [Fread fp (len - position), Fread fp (len - position - length bs)]\<rparr>)"
      by (simp add: fread_ram [OF op1] rest)
    have step: "read_loop ram fp len position buf W
        = read_loop ram fp len (position + length bs) (store buf position bs) ?W1"
      by (subst read_loop.simps) (simp add: first nread False Let_def)
    have last: "read_loop ram fp len (position + length bs) (store buf position bs) ?W1
        = (position + length bs, store buf position bs,
           \<lparr>os = (os W)\<lparr>rf_pos := rf_pos (os W) + length bs\<rparr>,
            calls = calls W @ [Fread fp (len - position), Fread fp (len - position - length bs)]\<rparr>)"
      by (subst read_loop.simps) (simp add: second to_unsigned_def store_nil Let_def)
    show ?thesis
      using False by (simp add: step last)
  qed
qed


lemma allocate_tail: "drop n (ptr (sq_text_allocate f n)) = [f n]"
  by (simp add: sq_text_allocate_def drop_map)

lemma read_func_ram_small:
  assumes op: "rf_open (os W)" and rd: "rf_readable (os W)" and ne: "\<not> rf_error (os W)"
    and fp: "file_ptr scroll = 1" and pos: "rf_pos (os W) = 0"
    and data: "take n (rf_data (os W)) = bs" and len: "length bs = n" and small: "n < 2 ^ 32"
  shows "fst (read_func ram h \<lparr>pargv = [Other (Scroll scroll), Numeral (of_nat n)], kwargc = 0\<rparr> W)
     = Inr (Text \<lparr>ptr = bs @ [NUL], length_t = n\<rparr>)"
proof -
  have n63: "n < 2 ^ 63"
    using small by (rule less_trans) simp
  have valid: "rf_valid (file_ptr scroll) (os W)"
    using op fp by (simp add: rf_valid_def)
  have bs: "bs = take (n - 0) (drop (rf_pos (os W)) (rf_data (os W)))"
    using data pos by simp
  have small': "length bs < 2 ^ 32"
    using len small by simp
  note loop = read_loop_ram [OF valid rd bs small', of "ptr (sq_text_allocate (io_fresh ram) n)"]
  have buf: "(store (ptr (sq_text_allocate (io_fresh ram) n)) 0 bs)[n := NUL] = bs @ [NUL]"
    using len by (simp add: store_def allocate_tail list_update_append)
  show ?thesis
    using ne
    by (simp add: read_func_def pargc_def sint_of_nat_64 [OF n63] unat_of_nat_64 [OF n63]
        sq_scroll_read_def Let_def loop len ferror_def buf)
      (simp add: ram_def ram_ferror_def sq_text_allocate_def)
qed


text \<open>
  The scenario of claim C3 on texts shorter than \<open>2 ^ 32\<close> bytes. On a scroll that
  \<^verbatim>\<open>sq_scroll_init\<close> has just opened on the file in memory, in a mode with \<^verbatim>\<open>+\<close> that does
  not append, and with a host that converts a text and the numeral 0 to themselves:
  \<^verbatim>\<open>write(t)\<close>, \<^verbatim>\<open>seek(0, 0)\<close>, \<^verbatim>\<open>read(t.length)\<close> returns a text of the length of \<open>t\<close>
  with the bytes of \<open>t\<close>, zero bytes included.
\<close>

theorem write_seek_read_returns_text:
  assumes init: "sq_scroll_init ram fname md g W0 = (Inr scroll, g', W)"
    and plus: "CHR ''+'' \<in> set (cstr md)" and noapp: "hd (cstr md) \<noteq> CHR ''a''"
    and host: "sq_value_to_text h (Text t) W = (Inr t, W)" "sq_value_to_numeral h (Numeral 0) = 0"
    and wf: "length_t t \<le> length (ptr t)"
    and small: "length_t t < 2 ^ 32"
  shows "fst (write_seek_read ram h scroll t W)
     = Inr (Text \<lparr>ptr = text_bytes t @ [NUL], length_t = length_t t\<rparr>)"
proof -
  from init_fresh [OF init plus noapp] have fs: "fresh_stream W" and fp: "file_ptr scroll = 1"
    by simp_all
  let ?W1 = "\<lparr>os = (os W)\<lparr>rf_data := text_bytes t @ drop (length_t t) (rf_data (os W)),
                   rf_pos := length_t t\<rparr>,
       calls = calls W @ [Fwrite (file_ptr scroll) (text_bytes t)]\<rparr>"
  let ?W2 = "\<lparr>os = (os ?W1)\<lparr>rf_pos := 0\<rparr>, calls = calls ?W1 @ [Fseek (file_ptr scroll) 0 0, Ftell (file_ptr scroll)]\<rparr>"
  have len: "length (text_bytes t) = length_t t"
    using wf by (simp add: text_bytes_def)
  have w: "write_func ram h \<lparr>pargv = [Other (Scroll scroll), Text t], kwargc = 0\<rparr> W
      = (Inr SQ_NI, ?W1)"
    by (rule write_func_ram [OF fs fp host(1) wf])
  have op1: "rf_open (os ?W1)"
    using fs by (simp add: fresh_stream_def)
  have s: "seek_func ram h \<lparr>pargv = [Other (Scroll scroll), Numeral 0, Numeral 0], kwargc = 0\<rparr> ?W1
      = (Inr (Numeral 0), ?W2)"
    by (rule seek_func_ram [OF op1 fp host(2)])
  have st: "rf_open (os ?W2)" "rf_readable (os ?W2)" "\<not> rf_error (os ?W2)" "rf_pos (os ?W2) = 0"
    "take (length_t t) (rf_data (os ?W2)) = text_bytes t"
    using fs len by (simp_all add: fresh_stream_def)
  have r: "fst (read_func ram h
        \<lparr>pargv = [Other (Scroll scroll), Numeral (of_nat (length_t t))], kwargc = 0\<rparr> ?W2)
      = Inr (Text \<lparr>ptr = text_bytes t @ [NUL], length_t = length_t t\<rparr>)"
    by (rule read_func_ram_small [OF st(1) st(2) st(3) fp st(4) st(5) len small])
  show ?thesis
    by (simp only: write_seek_read_def w s prod.case sum.case r)
qed

text \<open>A text with a zero byte inside, written over a file that held something else.\<close>

theorem write_seek_read_returns_text_witness:
  "fst (write_seek_read ram demo_host (t_scroll ''w+'')
         \<lparr>ptr = [CHR ''h'', NUL, CHR ''i'', NUL], length_t = 3\<rparr> (opened ''w+'' ''old''))
     = Inr (Text \<lparr>ptr = [CHR ''h'', NUL, CHR ''i'', NUL], length_t = 3\<rparr>)"
proof -
  let ?t = "\<lparr>ptr = [CHR ''h'', NUL, CHR ''i'', NUL], length_t = 3\<rparr>"
  have init: "sq_scroll_init ram ''t.txt'' ''w+'' no_journeys (disk ''old'')
      = (Inr (t_scroll ''w+''),
         fst (snd (sq_scroll_init ram ''t.txt'' ''w+'' no_journeys (disk ''old''))),
         opened ''w+'' ''old'')"
    by (simp add: scroll_defs libc_defs ram_defs cstring_defs)
  have md: "CHR ''+'' \<in> set (cstr ''w+'')" "hd (cstr ''w+'') \<noteq> CHR ''a''"
    by (simp_all add: cstr_def)
  have host: "sq_value_to_text demo_host (Text ?t) (opened ''w+'' ''old'')
      = (Inr ?t, opened ''w+'' ''old'')"
    "sq_value_to_numeral demo_host (Numeral 0) = 0"
    by (simp_all add: demo_host_def)
  have wf: "length_t ?t \<le> length (ptr ?t)" and small: "length_t ?t < 2 ^ 32"
    by simp_all
  from write_seek_read_returns_text [OF init md host wf small] show ?thesis
    by (simp add: text_bytes_def)
qed

lemma read_func_ram_wrap:
  assumes op: "rf_open (os W)" and rd: "rf_readable (os W)" and ne: "\<not> rf_error (os W)"
    and fp: "file_ptr scroll = 1" and pos: "rf_pos (os W) = 0"
    and data: "take n (rf_data (os W)) = bs" and len: "length bs = n"
    and wrap: "n mod 2 ^ 32 = 0" and n63: "n < 2 ^ 63"
  shows "fst (read_func ram h \<lparr>pargv = [Other (Scroll scroll), Numeral (of_nat n)], kwargc = 0\<rparr> W)
     = Inr (Text \<lparr>ptr = (bs @ [io_fresh ram n])[0 := NUL], length_t = n\<rparr>)"
proof -
  have valid: "rf_valid (file_ptr scroll) (os W)"
    using op fp by (simp add: rf_valid_def)
  have first: "fread ram (file_ptr scroll) n W
      = (bs, \<lparr>os = (os W)\<lparr>rf_pos := n\<rparr>, calls = calls W @ [Fread (file_ptr scroll) n]\<rparr>)"
    using data pos len by (simp add: fread_ram [OF valid rd])
  have loop: "read_loop ram (file_ptr scroll) n 0 (ptr (sq_text_allocate (io_fresh ram) n)) W
      = (0, bs @ [io_fresh ram n],
         \<lparr>os = (os W)\<lparr>rf_pos := n\<rparr>, calls = calls W @ [Fread (file_ptr scroll) n]\<rparr>)"
    using len wrap
    by (subst read_loop.simps)
      (simp add: first to_unsigned_def Let_def store_def allocate_tail)
  show ?thesis
    using ne
    by (simp add: read_func_def pargc_def sint_of_nat_64 [OF n63] unat_of_nat_64 [OF n63]
        sq_scroll_read_def Let_def loop ferror_def)
      (simp add: ram_def ram_ferror_def sq_text_allocate_def)
qed

text \<open>When the length is a multiple of \<open>2 ^ 32\<close>, the one \<^verbatim>\<open>fread\<close> that transfers the
  whole text leaves \<^verbatim>\<open>nread\<close> at 0: the loop ends with \<^verbatim>\<open>position\<close> 0 and the zero byte
  is written over the first byte read.\<close>

lemma write_seek_read_wrap:
  assumes init: "sq_scroll_init ram fname md g W0 = (Inr scroll, g', W)"
    and plus: "CHR ''+'' \<in> set (cstr md)" and noapp: "hd (cstr md) \<noteq> CHR ''a''"
    and host: "sq_value_to_text h (Text t) W = (Inr t, W)" "sq_value_to_numeral h (Numeral 0) = 0"
    and wf: "length_t t \<le> length (ptr t)"
    and wrap: "length_t t mod 2 ^ 32 = 0" and n63: "length_t t < 2 ^ 63"
  shows "fst (write_seek_read ram h scroll t W)
     = Inr (Text \<lparr>ptr = (text_bytes t @ [io_fresh ram (length_t t)])[0 := NUL], length_t = length_t t\<rparr>)"
proof -
  from init_fresh [OF init plus noapp] have fs: "fresh_stream W" and fp: "file_ptr scroll = 1"
    by simp_all
  let ?W1 = "\<lparr>os = (os W)\<lparr>rf_data := text_bytes t @ drop (length_t t) (rf_data (os W)),
                   rf_pos := length_t t\<rparr>,
       calls = calls W @ [Fwrite (file_ptr scroll) (text_bytes t)]\<rparr>"
  let ?W2 = "\<lparr>os = (os ?W1)\<lparr>rf_pos := 0\<rparr>, calls = calls ?W1 @ [Fseek (file_ptr scroll) 0 0, Ftell (file_ptr scroll)]\<rparr>"
  have len: "length (text_bytes t) = length_t t"
    using wf by (simp add: text_bytes_def)
  have w: "write_func ram h \<lparr>pargv = [Other (Scroll scroll), Text t], kwargc = 0\<rparr> W
      = (Inr SQ_NI, ?W1)"
    by (rule write_func_ram [OF fs fp host(1) wf])
  have op1: "rf_open (os ?W1)"
    using fs by (simp add: fresh_stream_def)
  have s: "seek_func ram h \<lparr>pargv = [Other (Scroll scroll), Numeral 0, Numeral 0], kwargc = 0\<rparr> ?W1
      = (Inr (Numeral 0), ?W2)"
    by (rule seek_func_ram [OF op1 fp host(2)])
  have st: "rf_open (os ?W2)" "rf_readable (os ?W2)" "\<not> rf_error (os ?W2)" "rf_pos (os ?W2) = 0"
    "take (length_t t) (rf_data (os ?W2)) = text_bytes t"
    using fs len by (simp_all add: fresh_stream_def)
  have r: "fst (read_func ram h
        \<lparr>pargv = [Other (Scroll scroll), Numeral (of_nat (length_t t))], kwargc = 0\<rparr> ?W2)
      = Inr (Text \<lparr>ptr = (text_bytes t @ [io_fresh ram (length_t t)])[0 := NUL], length_t = length_t t\<rparr>)"
    by (rule read_func_ram_wrap [OF st(1) st(2) st(3) fp st(4) st(5) len wrap n63])
  show ?thesis
    by (simp only: write_seek_read_def w s prod.case sum.case r)
qed


lemma update_head_replicate:
  "0 < n \<Longrightarrow> (replicate n x @ ys)[0 := y] = y # replicate (n - 1) x @ ys"
  by (cases n) simp_all

text \<open>
  Claim C3 fails on the code. The text holds \<open>2 ^ 32\<close> bytes \<^verbatim>\<open>a\<close>; the scroll is opened
  with \<^verbatim>\<open>w+\<close> on the empty file. \<^verbatim>\<open>write\<close>, \<^verbatim>\<open>seek(0, 0)\<close> and \<^verbatim>\<open>read(4294967296)\<close> all
  succeed, and the text read starts with a zero byte: \<^verbatim>\<open>fread\<close> returns 4294967296,
  which \<^verbatim>\<open>unsigned nread\<close> holds as 0.
\<close>

theorem write_seek_read_4GiB_loses_first_byte:
  "fst (sq_scroll_init ram ''t.txt'' ''w+'' no_journeys (disk [])) = Inr (t_scroll ''w+'')
   \<and> fst (write_seek_read ram demo_host (t_scroll ''w+'')
         \<lparr>ptr = replicate 4294967296 (CHR ''a'') @ [NUL], length_t = 4294967296\<rparr>
         (opened ''w+'' []))
     = Inr (Text \<lparr>ptr = NUL # replicate 4294967295 (CHR ''a'') @ ''?'', length_t = 4294967296\<rparr>)"
proof -
  let ?t = "\<lparr>ptr = replicate 4294967296 (CHR ''a'') @ [NUL], length_t = 4294967296\<rparr>"
  have init: "sq_scroll_init ram ''t.txt'' ''w+'' no_journeys (disk [])
      = (Inr (t_scroll ''w+''),
         fst (snd (sq_scroll_init ram ''t.txt'' ''w+'' no_journeys (disk []))),
         opened ''w+'' [])"
    by (simp add: scroll_defs libc_defs ram_defs cstring_defs)
  have md: "CHR ''+'' \<in> set (cstr ''w+'')" "hd (cstr ''w+'') \<noteq> CHR ''a''"
    by (simp_all add: cstr_def)
  have host: "sq_value_to_text demo_host (Text ?t) (opened ''w+'' []) = (Inr ?t, opened ''w+'' [])"
    "sq_value_to_numeral demo_host (Numeral 0) = 0"
    by (simp_all add: demo_host_def)
  have wf: "length_t ?t \<le> length (ptr ?t)"
    by simp
  have wrap: "length_t ?t mod 2 ^ 32 = 0" "length_t ?t < 2 ^ 63"
    by simp_all
  have bytes: "text_bytes ?t = replicate 4294967296 (CHR ''a'')"
    by (simp add: text_bytes_def)
  have junk: "io_fresh ram n = CHR ''?''" for n
    by (simp add: ram_def)
  have opens: "fst (sq_scroll_init ram ''t.txt'' ''w+'' no_journeys (disk [])) = Inr (t_scroll ''w+'')"
    by (simp add: scroll_defs libc_defs ram_defs cstring_defs)
  from write_seek_read_wrap [OF init md host wf wrap]
  have "fst (write_seek_read ram demo_host (t_scroll ''w+'') ?t (opened ''w+'' []))
     = Inr (Text \<lparr>ptr = NUL # replicate 4294967295 (CHR ''a'') @ ''?'', length_t = 4294967296\<rparr>)"
    by (simp only: bytes sq_text.simps update_head_replicate) (simp add: junk)
  with opens show ?thesis
    by (rule conjI)
qed

end
